theory Spec2Isabelle
  imports Main "HOL-Library.Sublist"
begin

section \<open>TTH blocklist extension: identifier validation\<close>

text \<open>
  The model follows version 1.20.56 of the extension. The module's variables are the
  fields of one record, \<open>cache\<close>, and everything outside the module (the blocklist
  directory, the clock, the notification channel, the network and the host's API) is one
  record, \<open>world\<close>; a function takes both and returns both. An exception is a value: a
  function that can raise returns an \<open>outcome\<close>, or a sum whose left side is the message.

  JavaScript strings are modelled as \<open>string\<close>; a character outside ASCII is in no
  character class used below. A file is kept in its parsed form (see \<open>writeFileSync\<close> for
  what that leaves out). The clock does not move during one call, and the blocklist
  directory exists.
\<close>

subsection \<open>The regular expression \<open>/^[A-Z2-7]{39}$/\<close>\<close>

definition in_range :: "char \<Rightarrow> char \<Rightarrow> char \<Rightarrow> bool" where
  \<comment> \<open>a range \<open>lo-hi\<close> of a character class, compared by code unit\<close>
  "in_range lo hi c = ((of_char lo :: nat) \<le> of_char c \<and> (of_char c :: nat) \<le> of_char hi)"

definition tth_class :: "char \<Rightarrow> bool" where
  \<comment> \<open>the class \<open>[A-Z2-7]\<close>\<close>
  "tth_class c = (in_range (CHR ''A'') (CHR ''Z'') c \<or> in_range (CHR ''2'') (CHR ''7'') c)"

fun match_exact :: "(char \<Rightarrow> bool) \<Rightarrow> nat \<Rightarrow> string \<Rightarrow> bool" where
  \<comment> \<open>\<open>^cls{n}$\<close>: exactly \<open>n\<close> characters of the class, then the end of the input\<close>
  "match_exact cls n [] = (n = 0)"
| "match_exact cls n (c # cs) = (n \<noteq> 0 \<and> cls c \<and> match_exact cls (n - 1) cs)"

definition isValidTTH :: "string \<Rightarrow> bool" where
  \<comment> \<open>\<open>tthRegex.test(id)\<close>; the function only logs otherwise\<close>
  "isValidTTH ident = match_exact tth_class 39 ident"

definition base32_alphabet :: "string" where
  "base32_alphabet = ''ABCDEFGHIJKLMNOPQRSTUVWXYZ234567''"

definition isValid_spec :: "string \<Rightarrow> bool" where
  \<comment> \<open>the validator as the specification words it\<close>
  "isValid_spec s = (length s = 39 \<and> list_all (\<lambda>c. c \<in> set base32_alphabet) s)"

section \<open>Data model\<close>

subsection \<open>Blocklist files\<close>

datatype tthval =
    TAbsent  \<comment> \<open>no \<open>tth\<close> field, or a falsy value that is not a string\<close>
  | TStr string
  | TOther  \<comment> \<open>a truthy value that is not a string and whose string form does not match the
      expression (a number, \<open>true\<close>, an object): \<open>id.split\<close> raises a TypeError\<close>

record entry =
  tth :: tthval
  comment :: string
  timestamp :: string

datatype urlval =
    NoUrl  \<comment> \<open>\<open>null\<close>, absent or the empty string\<close>
  | Internal  \<comment> \<open>the string \<open>'Internal'\<close>\<close>
  | Unparsable  \<comment> \<open>a string that \<open>new URL\<close> rejects\<close>
  | Parsed (protocol: string) (hostname: string) (pathname: string)

datatype tthsval = NotArray | Array "entry list"

text \<open>
  The parsed form of a blocklist file or of a fetched body. A field that is absent is the
  empty string, which JavaScript treats as falsy too. The description is not modelled: no
  branch depends on it.
\<close>

record blocklist_json =
  j_url :: urlval
  j_version :: string
  j_updated_at :: string
  j_tths :: tthsval

datatype content =
    Blank  \<comment> \<open>\<open>data.trim() === ''\<close>\<close>
  | Garbage  \<comment> \<open>\<open>JSON.parse\<close> raises, or yields \<open>null\<close>\<close>
  | Json blocklist_json

record fileinfo =
  content :: content
  mtimeMs :: nat

subsection \<open>The host: file system, clock, notification channel, network\<close>

datatype severity = Info | Warning | Error

datatype notice =
    Initialized string
  | TthsNotArray string
  | NoValidTTHs string
  | ValidateFailed string
  | ResetFailed string
  | ReadDirFailed
  | SettingsInvalid
  | InternalInitialized
  | InternalFormatReset
  | InternalCreated
  | InternalLoadFailed
  | LoadFailed string
  | ReloadFailed string
  | InvalidURL string
  | Updated string
  | UpdateFailed string string
  | AddSettingsInvalid
  | InternalDisabled
  | Added "string list"
  | WriteFailed
  | NothingToAdd
  | IsDirectory string
  | ItemFetchFailed string
  | Blocked string string

type_synonym event = "severity \<times> notice"

datatype body = BadJson string | Body blocklist_json

record search_result =
  r_id :: string
  r_is_file :: bool  \<comment> \<open>\<open>result.type === 'file'\<close>\<close>
  r_tth :: string

datatype item_kind = Directory | File | OtherKind  \<comment> \<open>\<open>item.type.id\<close>\<close>

datatype item_reply =
    Rejected  \<comment> \<open>the request fails\<close>
  | Missing  \<comment> \<open>the answer is \<open>null\<close> or \<open>undefined\<close>\<close>
  | Item item_kind string  \<comment> \<open>the item's kind and its \<open>tth\<close> field, empty when absent\<close>

datatype response =
    NetworkError string  \<comment> \<open>\<open>fetch\<close> rejects with this message\<close>
  | Response (status: nat) (statusText: string) (contentType: string) (etag: string) (body: body)

record world =
  files :: "(string \<times> fileinfo) list"  \<comment> \<open>the blocklist directory, by file name\<close>
  disk_error :: "string option"  \<comment> \<open>the message \<open>writeFileSync\<close> raises with, if it does\<close>
  write_mtime :: nat  \<comment> \<open>the \<open>mtimeMs\<close> a file written now gets\<close>
  clock_ms :: nat  \<comment> \<open>\<open>Date.now()\<close>\<close>
  clock_iso :: string  \<comment> \<open>\<open>new Date().toISOString()\<close>\<close>
  posts :: "event list"  \<comment> \<open>what \<open>socket.post('events', ...)\<close> was called with\<close>
  post_error :: "nat \<Rightarrow> string option"  \<comment> \<open>the message the n-th post rejects with, if it does\<close>
  requests :: "string option list"  \<comment> \<open>the \<open>If-None-Match\<close> header of each fetch\<close>
  net :: "nat \<Rightarrow> response"  \<comment> \<open>the answer to the n-th fetch\<close>
  search_api :: "string \<Rightarrow> search_result list option"
    \<comment> \<open>\<open>GET search/instances/{entityId}/results\<close>; \<open>None\<close> when it fails\<close>
  filelist_api :: "string \<Rightarrow> string \<Rightarrow> item_reply"
    \<comment> \<open>\<open>GET filelists/{entityId}/items/{itemId}\<close>\<close>

datatype setting = Throws | Value bool  \<comment> \<open>\<open>getValue\<close> raises, or returns a truthy or falsy value\<close>

datatype settings = NoSettings | Settings "string \<Rightarrow> setting"

subsection \<open>The module's variables\<close>

record blocklist =
  file_name :: string  \<comment> \<open>the field \<open>file\<close>; the path is this name inside the blocklist directory\<close>
  mtime :: nat
  url :: urlval
  version :: string
  updated_at :: string

record cache =
  blockedTTHSet :: "string set"
  blocklistFiles :: "blocklist list"
  blocklistTTHMap :: "string \<rightharpoonup> string set"
  blocklistETags :: "string \<rightharpoonup> string"
  blocklistVersions :: "string \<rightharpoonup> string option"
  lastUpdateWriteTime :: "string \<rightharpoonup> nat"

datatype 'a outcome = Returned 'a | Raised

definition INTERNAL_BLOCKLIST_FILE :: string where
  "INTERNAL_BLOCKLIST_FILE = ''internal_blocklist.json''"

section \<open>File system and notification primitives\<close>

definition readFileSync :: "world \<Rightarrow> string \<Rightarrow> content option" where
  \<comment> \<open>\<open>None\<close> when the file does not exist: \<open>existsSync\<close> is false and the read raises\<close>
  "readFileSync w f = map_option content (map_of (files w) f)"

definition statSync :: "world \<Rightarrow> string \<Rightarrow> nat option" where
  \<comment> \<open>\<open>fs.statSync(path).mtimeMs\<close>; \<open>None\<close> when it raises. Times are natural numbers: the
      functions modelled here only compare them for equality\<close>
  "statSync w f = map_option mtimeMs (map_of (files w) f)"

fun put_file :: "string \<Rightarrow> fileinfo \<Rightarrow> (string \<times> fileinfo) list \<Rightarrow> (string \<times> fileinfo) list" where
  "put_file f i [] = [(f, i)]"
| "put_file f i ((g, j) # rest) = (if g = f then (f, i) # rest else (g, j) # put_file f i rest)"

definition writeFileSync :: "string \<Rightarrow> blocklist_json \<Rightarrow> world \<Rightarrow> string + world" where
  \<comment> \<open>\<open>fs.writeFileSync(path, formatBlocklistJSON(data))\<close>; \<open>Inl\<close> the message when it raises.
      The file holds the data written, not its text: the model takes it that parsing the
      text of \<open>formatBlocklistJSON\<close> gives the data back. The source function joins the
      lines of each \<open>tths\<close> object into one, and there it replaces every run of whitespace by
      one space and the first \<open>} ,\<close> by \<open>},\<close>, inside strings too; it takes a lone \<open>]\<close> for
      the end of \<open>tths\<close>. So the text parses to other data when a string of an entry has a
      run of whitespace or the text \<open>} ,\<close>, when an entry holds an array, or when \<open>tths\<close> is
      not the last key and a later string has such a run. Data of that kind is outside the
      model.\<close>
  "writeFileSync f d w =
     (case disk_error w of
        None \<Rightarrow>
          Inr (w\<lparr>files := put_file f \<lparr>content = Json d, mtimeMs = write_mtime w\<rparr> (files w)\<rparr>)
      | Some msg \<Rightarrow> Inl msg)"

definition post :: "event \<Rightarrow> world \<Rightarrow> string option \<times> world" where
  \<comment> \<open>\<open>await socket.post('events', e)\<close>: the message of the rejection, if any, and the host
      after the call\<close>
  "post e w = (post_error w (length (posts w)), w\<lparr>posts := posts w @ [e]\<rparr>)"

definition post_async :: "event \<Rightarrow> world \<Rightarrow> world" where
  \<comment> \<open>a post that is not awaited: a rejection is not seen by the caller\<close>
  "post_async e w = snd (post e w)"

section \<open>Source registry\<close>

fun str_includes :: "string \<Rightarrow> string \<Rightarrow> bool" where
  \<comment> \<open>\<open>s.includes(sub)\<close>\<close>
  "str_includes [] sub = (sub = [])"
| "str_includes (c # cs) sub = (prefix sub (c # cs) \<or> str_includes cs sub)"

definition isValidBlocklistURL :: "urlval \<Rightarrow> bool" where
  "isValidBlocklistURL u =
     (case u of
        Internal \<Rightarrow> True
      | NoUrl \<Rightarrow> False
      | Unparsable \<Rightarrow> False
      | Parsed proto host path \<Rightarrow>
          (proto = ''https:'' \<or> proto = ''http:'') \<and>
          (str_includes host ''raw.githubusercontent.com'' \<or> str_includes path ''/raw/''))"

definition tth_ok :: "tthval \<Rightarrow> bool option" where
  \<comment> \<open>\<open>item.tth && isValidTTH(item.tth)\<close>; \<open>None\<close> when it raises\<close>
  "tth_ok v =
     (case v of
        TAbsent \<Rightarrow> Some False
      | TStr s \<Rightarrow> Some (s \<noteq> [] \<and> isValidTTH s)
      | TOther \<Rightarrow> None)"

fun some_valid :: "entry list \<Rightarrow> bool option" where
  \<comment> \<open>\<open>tths.some(item => item.tth && isValidTTH(item.tth))\<close>\<close>
  "some_valid [] = Some False"
| "some_valid (e # es) =
     (case tth_ok (tth e) of
        None \<Rightarrow> None
      | Some True \<Rightarrow> Some True
      | Some False \<Rightarrow> some_valid es)"

definition or_else :: "string \<Rightarrow> string \<Rightarrow> string" where
  \<comment> \<open>\<open>a || b\<close> on strings\<close>
  "or_else a b = (if a \<noteq> [] then a else b)"

record validation =
  valid :: bool
  v_url :: urlval
  v_version :: string
  v_updated_at :: string

definition defaultBlocklist :: "world \<Rightarrow> string \<Rightarrow> blocklist_json" where
  "defaultBlocklist w f =
     \<lparr>j_url = (if f = INTERNAL_BLOCKLIST_FILE then Internal else NoUrl),
      j_version = (if f = INTERNAL_BLOCKLIST_FILE then ''Internal'' else ''1.0.0''),
      j_updated_at = clock_iso w,
      j_tths = Array []\<rparr>"

definition validate_reset :: "string \<Rightarrow> world \<Rightarrow> validation \<times> world" where
  \<comment> \<open>the \<open>catch\<close> block of \<open>validateBlocklistFile\<close>\<close>
  "validate_reset f w0 =
     (let w = post_async (Error, ValidateFailed f) w0;
          d = defaultBlocklist w f
      in case writeFileSync f d w of
           Inr w' \<Rightarrow>
             (\<lparr>valid = True, v_url = j_url d, v_version = j_version d,
               v_updated_at = j_updated_at d\<rparr>, w')
         | Inl writeErr \<Rightarrow>
             (\<lparr>valid = False, v_url = NoUrl, v_version = ''1.0.0'',
               v_updated_at = clock_iso w\<rparr>, post_async (Error, ResetFailed f) w))"

definition validateBlocklistFile :: "string \<Rightarrow> world \<Rightarrow> validation \<times> world" where
  "validateBlocklistFile f w =
     (case readFileSync w f of
        None \<Rightarrow> validate_reset f w
      | Some Blank \<Rightarrow>
          (let d = defaultBlocklist w f
           in case writeFileSync f d w of
                Inl err \<Rightarrow> validate_reset f w
              | Inr w' \<Rightarrow>
                  (\<lparr>valid = True, v_url = j_url d, v_version = j_version d,
                    v_updated_at = j_updated_at d\<rparr>, post_async (Info, Initialized f) w'))
      | Some Garbage \<Rightarrow> validate_reset f w
      | Some (Json b) \<Rightarrow>
          (if j_url b = NoUrl \<or> \<not> isValidBlocklistURL (j_url b)
           then (\<lparr>valid = True, v_url = NoUrl, v_version = or_else (j_version b) ''1.0.0'',
                  v_updated_at = or_else (j_updated_at b) (clock_iso w)\<rparr>, w)
           else
             (case j_tths b of
                NotArray \<Rightarrow>
                  (\<lparr>valid = False, v_url = j_url b, v_version = or_else (j_version b) ''1.0.0'',
                    v_updated_at = or_else (j_updated_at b) (clock_iso w)\<rparr>,
                   post_async (Error, TthsNotArray f) w)
              | Array es \<Rightarrow>
                  (case some_valid es of
                     None \<Rightarrow> validate_reset f w
                   | Some hasValidTTH \<Rightarrow>
                       if \<not> hasValidTTH \<and> length es > 0
                       then (\<lparr>valid = False, v_url = j_url b,
                              v_version = or_else (j_version b) ''1.0.0'',
                              v_updated_at = or_else (j_updated_at b) (clock_iso w)\<rparr>,
                             post_async (Error, NoValidTTHs f) w)
                       else (\<lparr>valid = True, v_url = j_url b,
                              v_version = or_else (j_version b) ''1.0.0'',
                              v_updated_at = or_else (j_updated_at b) (clock_iso w)\<rparr>, w)))))"

fun scan_files :: "string list \<Rightarrow> world \<Rightarrow> blocklist list option \<times> world" where
  \<comment> \<open>the \<open>map\<close> and \<open>filter\<close> of \<open>getBlocklistFiles\<close>; \<open>None\<close> when \<open>statSync\<close> raises\<close>
  "scan_files [] w = (Some [], w)"
| "scan_files (f # fs) w =
     (case validateBlocklistFile f w of
        (v, w1) \<Rightarrow>
          if valid v
          then (case statSync w1 f of
                  None \<Rightarrow> (None, w1)
                | Some m \<Rightarrow>
                    (case scan_files fs w1 of
                       (None, w2) \<Rightarrow> (None, w2)
                     | (Some bs, w2) \<Rightarrow>
                         (Some (\<lparr>file_name = f, mtime = m, url = v_url v,
                                 version = v_version v, updated_at = v_updated_at v\<rparr> # bs), w2)))
          else scan_files fs w1)"

definition getBlocklistFiles :: "world \<Rightarrow> blocklist list \<times> world" where
  "getBlocklistFiles w =
     (case scan_files (filter (suffix ''.json'') (map fst (files w))) w of
        (Some bs, w') \<Rightarrow> (bs, w')
      | (None, w') \<Rightarrow> ([], post_async (Error, ReadDirFailed) w'))"

section \<open>Membership cache\<close>

fun load_entries :: "entry list \<Rightarrow> string set \<Rightarrow> string set \<Rightarrow> bool \<times> string set \<times> string set" where
  \<comment> \<open>the \<open>forEach\<close> that adds every valid identifier to \<open>blockedTTHSet\<close> and to \<open>tthSet\<close>;
      the flag is false when an item made \<open>isValidTTH\<close> raise, and what was added stays\<close>
  "load_entries [] B T = (True, B, T)"
| "load_entries (e # es) B T =
     (case tth e of
        TAbsent \<Rightarrow> load_entries es B T
      | TStr s \<Rightarrow>
          if s \<noteq> [] \<and> isValidTTH s
          then load_entries es (insert s B) (insert s T)
          else load_entries es B T
      | TOther \<Rightarrow> (False, B, T))"

definition version_token :: "blocklist_json \<Rightarrow> string option" where
  \<comment> \<open>\<open>data.version || data.updated_at || null\<close>\<close>
  "version_token b =
     (if j_version b \<noteq> [] then Some (j_version b)
      else if j_updated_at b \<noteq> [] then Some (j_updated_at b)
      else None)"

definition merge_source ::
  "string \<Rightarrow> blocklist_json \<Rightarrow> entry list \<Rightarrow> notice \<Rightarrow> cache \<Rightarrow> world \<Rightarrow> bool \<times> cache \<times> world" where
  \<comment> \<open>the loading loop with the two \<open>set\<close> calls after it, inside its \<open>try\<close>\<close>
  "merge_source f b es failed c w =
     (case load_entries es (blockedTTHSet c) {} of
        (True, B, T) \<Rightarrow>
          (True,
           c\<lparr>blockedTTHSet := B,
             blocklistTTHMap := (blocklistTTHMap c)(f \<mapsto> T),
             blocklistVersions := (blocklistVersions c)(f \<mapsto> version_token b)\<rparr>,
           w)
      | (False, B, T) \<Rightarrow> (False, c\<lparr>blockedTTHSet := B\<rparr>, post_async (Error, failed) w))"

definition load_internal :: "cache \<Rightarrow> world \<Rightarrow> cache \<times> world" where
  "load_internal c w =
     (let f = INTERNAL_BLOCKLIST_FILE; failed = post_async (Error, InternalLoadFailed) w
      in case readFileSync w f of
           None \<Rightarrow>
             (case writeFileSync f (defaultBlocklist w f) w of
                Inl err \<Rightarrow> (c, failed)
              | Inr w' \<Rightarrow> (c, post_async (Info, InternalCreated) w'))
         | Some Blank \<Rightarrow>
             (case writeFileSync f (defaultBlocklist w f) w of
                Inl err \<Rightarrow> (c, failed)
              | Inr w' \<Rightarrow> (c, post_async (Info, InternalInitialized) w'))
         | Some Garbage \<Rightarrow> (c, failed)
         | Some (Json b) \<Rightarrow>
             (case j_tths b of
                Array es \<Rightarrow>
                  if j_url b = Internal
                  then snd (merge_source f b es InternalLoadFailed c w)
                  else (case writeFileSync f (defaultBlocklist w f) w of
                          Inl err \<Rightarrow> (c, failed)
                        | Inr w' \<Rightarrow> (c, post_async (Error, InternalFormatReset) w'))
              | NotArray \<Rightarrow>
                  (case writeFileSync f (defaultBlocklist w f) w of
                     Inl err \<Rightarrow> (c, failed)
                   | Inr w' \<Rightarrow> (c, post_async (Error, InternalFormatReset) w'))))"

definition load_one :: "string \<Rightarrow> cache \<Rightarrow> world \<Rightarrow> cache \<times> world" where
  \<comment> \<open>the \<open>try\<close> block in the loop of \<open>loadBlockedTTHs\<close>\<close>
  "load_one f c w =
     (case readFileSync w f of
        None \<Rightarrow> (c, post_async (Error, LoadFailed f) w)
      | Some Blank \<Rightarrow> (c, w)
      | Some Garbage \<Rightarrow> (c, post_async (Error, LoadFailed f) w)
      | Some (Json b) \<Rightarrow>
          (case j_tths b of
             Array es \<Rightarrow> snd (merge_source f b es (LoadFailed f) c w)
           | NotArray \<Rightarrow> (c, post_async (Error, TthsNotArray f) w)))"

definition truthy_or_default :: "setting \<Rightarrow> bool" where
  \<comment> \<open>\<open>try { v = settings.getValue(key) } catch { v = true }\<close>, then the truthiness of \<open>v\<close>\<close>
  "truthy_or_default r = (case r of Throws \<Rightarrow> True | Value v \<Rightarrow> v)"

fun load_others :: "(string \<Rightarrow> setting) \<Rightarrow> blocklist list \<Rightarrow> cache \<Rightarrow> world \<Rightarrow> cache \<times> world" where
  "load_others g [] c w = (c, w)"
| "load_others g (b # bs) c w =
     (if file_name b = INTERNAL_BLOCKLIST_FILE then load_others g bs c w
      else if truthy_or_default (g (''blocklist_'' @ file_name b))
      then (case load_one (file_name b) c w of (c', w') \<Rightarrow> load_others g bs c' w')
      else load_others g bs c w)"

definition loadBlockedTTHs :: "settings \<Rightarrow> cache \<Rightarrow> world \<Rightarrow> unit outcome \<times> cache \<times> world" where
  "loadBlockedTTHs st c w =
     (case st of
        NoSettings \<Rightarrow> (Returned (), c, post_async (Error, SettingsInvalid) w)
      | Settings g \<Rightarrow>
          (let c0 = c\<lparr>blockedTTHSet := {}, blocklistTTHMap := Map.empty,
                      blocklistVersions := Map.empty\<rparr>
           in case g ''internal_block_list'' of
                Throws \<Rightarrow> (Raised, c0, w)
              | Value on \<Rightarrow>
                  (case (if on then load_internal c0 w else (c0, w)) of
                     (c1, w1) \<Rightarrow>
                       (case load_others g (blocklistFiles c1) c1 w1 of
                          (c2, w2) \<Rightarrow> (Returned (), c2, w2)))))"

definition tths_of :: "cache \<Rightarrow> string \<Rightarrow> string set" where
  \<comment> \<open>\<open>blocklistTTHMap.get(filename) || new Set()\<close>\<close>
  "tths_of c filename = (case blocklistTTHMap c filename of None \<Rightarrow> {} | Some T \<Rightarrow> T)"

definition setting_enabled :: "settings \<Rightarrow> string \<Rightarrow> bool" where
  \<comment> \<open>the guarded \<open>getValue\<close> of \<open>updateSingleBlocklist\<close>: a settings object without
      \<open>getValue\<close> raises inside the \<open>try\<close> as well\<close>
  "setting_enabled st key =
     (case st of NoSettings \<Rightarrow> True | Settings g \<Rightarrow> truthy_or_default (g key))"

definition settingKey :: "string \<Rightarrow> string" where
  "settingKey filename =
     (if filename = INTERNAL_BLOCKLIST_FILE then ''internal_block_list''
      else ''blocklist_'' @ filename)"

definition reload_source :: "string \<Rightarrow> cache \<Rightarrow> world \<Rightarrow> bool outcome \<times> cache \<times> world" where
  \<comment> \<open>the \<open>try\<close> block of \<open>updateSingleBlocklist\<close>; after its \<open>catch\<close> the function returns false\<close>
  "reload_source f c w =
     (let failed = (Returned False, c, post_async (Error, ReloadFailed f) w)
      in case readFileSync w f of
           None \<Rightarrow> failed
         | Some Blank \<Rightarrow> failed
         | Some Garbage \<Rightarrow> failed
         | Some (Json b) \<Rightarrow>
             (case j_tths b of
                NotArray \<Rightarrow> failed
              | Array es \<Rightarrow>
                  (case merge_source f b es (ReloadFailed f) c w of
                     (ok, c', w') \<Rightarrow> (Returned ok, c', w'))))"

definition updateSingleBlocklist ::
  "settings \<Rightarrow> string \<Rightarrow> cache \<Rightarrow> world \<Rightarrow> bool outcome \<times> cache \<times> world" where
  "updateSingleBlocklist st filename c w =
     (case find (\<lambda>b. file_name b = filename) (blocklistFiles c) of
        None \<Rightarrow> (Returned False, c, w)
      | Some bl \<Rightarrow>
          (case statSync w filename of
             None \<Rightarrow> (Raised, c, w)
           | Some m \<Rightarrow>
               if lastUpdateWriteTime c filename = Some m then (Returned False, c, w)
               else
                 (let oldTTHs = tths_of c filename;
                      c1 = c\<lparr>lastUpdateWriteTime := (lastUpdateWriteTime c)(filename \<mapsto> m),
                              blockedTTHSet := blockedTTHSet c - oldTTHs,
                              blocklistTTHMap := (blocklistTTHMap c)(filename := None)\<rparr>
                  in if setting_enabled st (settingKey filename)
                     then (case validateBlocklistFile filename w of
                             (v, w1) \<Rightarrow>
                               if valid v then reload_source filename c1 w1
                               else (Returned False, c1, w1))
                     else (Returned False, c1, w))))"

section \<open>Remote synchronizer\<close>

fun show_nat :: "nat \<Rightarrow> string" where
  \<comment> \<open>a number inside a template string, in decimal\<close>
  "show_nat n =
     (if n < 10 then [char_of (48 + n)]
      else show_nat (n div 10) @ [char_of (48 + n mod 10)])"

declare show_nat.simps [simp del]

definition response_ok :: "nat \<Rightarrow> bool" where
  \<comment> \<open>\<open>response.ok\<close>\<close>
  "response_ok st = (200 \<le> st \<and> st \<le> 299)"

definition fetch_attempt :: "blocklist \<Rightarrow> cache \<Rightarrow> world \<Rightarrow> (string + bool) \<times> cache \<times> world" where
  \<comment> \<open>the \<open>try\<close> block of one attempt: \<open>Inr\<close> the value it returns, \<open>Inl\<close> the message of the
      error it raises\<close>
  "fetch_attempt bl c w =
     (let f = file_name bl;
          w1 = w\<lparr>requests := requests w @ [blocklistETags c f]\<rparr>
      in case net w (length (requests w)) of
           NetworkError msg \<Rightarrow> (Inl msg, c, w1)
         | Response st stext ctype tag bd \<Rightarrow>
             if st = 304 then (Inr False, c, w1)
             else if \<not> response_ok st
             then (Inl (''HTTP '' @ show_nat st @ '': '' @ stext), c, w1)
             else if \<not> str_includes ctype ''application/json'' \<and> \<not> str_includes ctype ''text/plain''
             then (Inl (''Invalid content type: '' @ ctype @
                        '', expected application/json or text/plain''), c, w1)
             else
               (case bd of
                  BadJson msg \<Rightarrow> (Inl (''Invalid JSON: '' @ msg), c, w1)
                | Body d \<Rightarrow>
                    (case j_tths d of
                       NotArray \<Rightarrow> (Inl ''Invalid JSON format: tths not an array'', c, w1)
                     | Array es \<Rightarrow>
                         (let newVersion = version_token d;
                              oldVersion = blocklistVersions c f
                          in if newVersion \<noteq> None \<and> oldVersion = Some newVersion
                             then (Inr False, c, w1)
                             else
                               (let c1 = c\<lparr>blocklistETags := (blocklistETags c)(f \<mapsto> tag),
                                           blocklistVersions := (blocklistVersions c)(f \<mapsto> newVersion),
                                           lastUpdateWriteTime :=
                                             (lastUpdateWriteTime c)(f \<mapsto> clock_ms w1)\<rparr>
                                in case writeFileSync f d w1 of
                                     Inl msg \<Rightarrow> (Inl msg, c1, w1)
                                   | Inr w2 \<Rightarrow>
                                       (case post (Info, Updated f) w2 of
                                          (None, w3) \<Rightarrow> (Inr True, c1, w3)
                                        | (Some msg, w3) \<Rightarrow> (Inl msg, c1, w3)))))))"

fun fetch_loop :: "nat \<Rightarrow> blocklist \<Rightarrow> cache \<Rightarrow> world \<Rightarrow> bool outcome \<times> cache \<times> world" where
  \<comment> \<open>the \<open>for\<close> loop, by the number of attempts left; a loop that ends without a return
      gives \<open>undefined\<close>, which is falsy\<close>
  "fetch_loop 0 bl c w = (Returned False, c, w)"
| "fetch_loop (Suc left) bl c w =
     (case fetch_attempt bl c w of
        (Inr r, c', w') \<Rightarrow> (Returned r, c', w')
      | (Inl msg, c', w') \<Rightarrow>
          if 0 < left \<and> \<not> str_includes msg ''HTTP 304''
          then fetch_loop left bl c' w'
          else (case post (Error, UpdateFailed (file_name bl) msg) w' of
                  (None, w'') \<Rightarrow> (Returned False, c', w'')
                | (Some err, w'') \<Rightarrow> (Raised, c', w'')))"

definition fetchAndUpdateBlocklist ::
  "blocklist \<Rightarrow> nat \<Rightarrow> cache \<Rightarrow> world \<Rightarrow> bool outcome \<times> cache \<times> world" where
  "fetchAndUpdateBlocklist bl retries c w =
     (if url bl = Internal then (Returned False, c, w)
      else if \<not> isValidBlocklistURL (url bl)
      then (case post (Error, InvalidURL (file_name bl)) w of
              (None, w') \<Rightarrow> (Returned False, c, w')
            | (Some err, w') \<Rightarrow> (Raised, c, w'))
      else fetch_loop retries bl c w)"

section \<open>Admission decision\<close>

record file_data =
  q_name :: string
  q_tth :: "string option"  \<comment> \<open>\<open>None\<close>: no \<open>tth\<close> field, or a value that is not a string\<close>

datatype hook_data =
    NoData  \<comment> \<open>\<open>null\<close> or \<open>undefined\<close>: reading \<open>data.file_data\<close> raises\<close>
  | Data "file_data option"

datatype decision = Accept | Reject string string

definition hook_try :: "settings \<Rightarrow> cache \<Rightarrow> hook_data \<Rightarrow> world \<Rightarrow> (string + decision) \<times> world" where
  \<comment> \<open>the \<open>try\<close> block of \<open>queueBundleFileAddHook\<close>: \<open>Inr\<close> the callback it calls, \<open>Inl\<close> the
      error it raises\<close>
  "hook_try st c d w =
     (case d of
        NoData \<Rightarrow> (Inl ''TypeError'', w)
      | Data fd \<Rightarrow>
          (let fileData = (case fd of None \<Rightarrow> \<lparr>q_name = [], q_tth = None\<rparr> | Some x \<Rightarrow> x)
           in case st of
                NoSettings \<Rightarrow> (Inr Accept, w)
              | Settings g \<Rightarrow>
                  (case q_tth fileData of
                     None \<Rightarrow> (Inr Accept, w)
                   | Some t \<Rightarrow>
                       if t \<noteq> [] \<and> t \<in> blockedTTHSet c
                       then (case post (Warning, Blocked (q_name fileData) t) w of
                               (None, w') \<Rightarrow>
                                 (Inr (Reject ''blocked_tth''
                                         ''Download skipped: TTH is blocked by extension''), w')
                             | (Some err, w') \<Rightarrow> (Inl err, w'))
                       else (Inr Accept, w))))"

definition queueBundleFileAddHook :: "settings \<Rightarrow> cache \<Rightarrow> hook_data \<Rightarrow> world \<Rightarrow> decision \<times> world" where
  "queueBundleFileAddHook st c d w =
     (case hook_try st c d w of
        (Inr answer, w') \<Rightarrow> (answer, w')
      | (Inl err, w') \<Rightarrow> (Accept, w'))"

section \<open>Local editor\<close>

datatype menu = GroupedSearchResult | FilelistItem | OtherMenu

definition addTTHFromSearch :: "string \<Rightarrow> string \<Rightarrow> world \<Rightarrow> string option" where
  "addTTHFromSearch entityId resultId w =
     (if isValidTTH resultId then Some resultId
      else case search_api w entityId of
             None \<Rightarrow> None
           | Some results \<Rightarrow>
               (case find (\<lambda>r. r_id r = resultId) results of
                  None \<Rightarrow> None
                | Some result \<Rightarrow>
                    if r_is_file result \<and> r_tth result \<noteq> [] then Some (r_tth result) else None))"

definition filelist_failed :: "string \<Rightarrow> world \<Rightarrow> string option outcome \<times> world" where
  \<comment> \<open>the \<open>catch\<close> block of \<open>addTTHFromFilelist\<close>\<close>
  "filelist_failed itemId w =
     (case post (Warning, ItemFetchFailed itemId) w of
        (None, w') \<Rightarrow> (Returned None, w')
      | (Some err, w') \<Rightarrow> (Raised, w'))"

definition addTTHFromFilelist :: "string \<Rightarrow> string \<Rightarrow> world \<Rightarrow> string option outcome \<times> world" where
  \<comment> \<open>the first request of the function only feeds the log and its failure is caught; for an
      answer without an item the log line reads \<open>item.path\<close>, which raises inside the \<open>try\<close>\<close>
  "addTTHFromFilelist entityId itemId w =
     (case filelist_api w entityId itemId of
        Rejected \<Rightarrow> filelist_failed itemId w
      | Missing \<Rightarrow> filelist_failed itemId w
      | Item kind t \<Rightarrow>
          (case kind of
             Directory \<Rightarrow>
               (case post (Warning, IsDirectory itemId) w of
                  (None, w') \<Rightarrow> (Returned None, w')
                | (Some err, w') \<Rightarrow> filelist_failed itemId w')
           | File \<Rightarrow> (Returned (if t \<noteq> [] then Some t else None), w)
           | OtherKind \<Rightarrow> (Returned None, w)))"

definition resolve_tth :: "menu \<Rightarrow> string \<Rightarrow> string \<Rightarrow> world \<Rightarrow> string option outcome \<times> world" where
  \<comment> \<open>the choice of the helper by \<open>menuType\<close>\<close>
  "resolve_tth m entityId ident w =
     (case m of
        GroupedSearchResult \<Rightarrow> (Returned (addTTHFromSearch entityId ident w), w)
      | FilelistItem \<Rightarrow> addTTHFromFilelist entityId ident w
      | OtherMenu \<Rightarrow> (Returned None, w))"

fun add_loop ::
  "menu \<Rightarrow> string \<Rightarrow> string list \<Rightarrow> cache \<Rightarrow> entry list \<Rightarrow> world \<Rightarrow> bool \<times> cache \<times> entry list \<times> world" where
  \<comment> \<open>the loop over \<open>selectedIds\<close>, with \<open>addedTTHs\<close>; the flag is false when a helper raised\<close>
  "add_loop m entityId [] c added w = (True, c, added, w)"
| "add_loop m entityId (ident # ids) c added w =
     (case resolve_tth m entityId ident w of
        (Raised, w') \<Rightarrow> (False, c, added, w')
      | (Returned None, w') \<Rightarrow> add_loop m entityId ids c added w'
      | (Returned (Some t), w') \<Rightarrow>
          if t \<noteq> [] \<and> t \<notin> blockedTTHSet c
          then add_loop m entityId ids
                 (c\<lparr>blockedTTHSet := insert t (blockedTTHSet c),
                    blocklistTTHMap := (blocklistTTHMap c)(INTERNAL_BLOCKLIST_FILE \<mapsto>
                      insert t (tths_of c INTERNAL_BLOCKLIST_FILE))\<rparr>)
                 (added @ [\<lparr>tth = TStr t, comment = [], timestamp = clock_iso w'\<rparr>]) w'
          else add_loop m entityId ids c added w')"

definition added_failed :: "cache \<Rightarrow> world \<Rightarrow> unit outcome \<times> cache \<times> world" where
  \<comment> \<open>the \<open>catch\<close> block around the write of \<open>addToBlocklist\<close>\<close>
  "added_failed c w =
     (case post (Error, WriteFailed) w of
        (None, w') \<Rightarrow> (Returned (), c, w')
      | (Some err, w') \<Rightarrow> (Raised, c, w'))"

definition entry_tth :: "entry \<Rightarrow> string" where
  "entry_tth e = (case tth e of TStr s \<Rightarrow> s | _ \<Rightarrow> [])"

definition save_added :: "entry list \<Rightarrow> cache \<Rightarrow> world \<Rightarrow> unit outcome \<times> cache \<times> world" where
  "save_added added c w =
     (let f = INTERNAL_BLOCKLIST_FILE;
          start = (case readFileSync w f of
                     None \<Rightarrow> Some (defaultBlocklist w f)
                   | Some Blank \<Rightarrow> Some (defaultBlocklist w f)
                   | Some Garbage \<Rightarrow> None
                   | Some (Json b) \<Rightarrow> Some b)
      in case start of
           None \<Rightarrow> added_failed c w
         | Some b \<Rightarrow>
             (let old = (case j_tths b of NotArray \<Rightarrow> [] | Array es \<Rightarrow> es);
                  b' = b\<lparr>j_tths := Array (old @ added), j_updated_at := clock_iso w\<rparr>
              in case writeFileSync f b' w of
                   Inl err \<Rightarrow> added_failed c w
                 | Inr w1 \<Rightarrow>
                     (let c1 = c\<lparr>lastUpdateWriteTime :=
                                   (lastUpdateWriteTime c)(f \<mapsto> clock_ms w1)\<rparr>
                      in case post (Info, Added (map entry_tth added)) w1 of
                           (None, w2) \<Rightarrow> (Returned (), c1, w2)
                         | (Some err, w2) \<Rightarrow> added_failed c1 w2)))"

definition addToBlocklist ::
  "settings \<Rightarrow> string list \<Rightarrow> string \<Rightarrow> menu \<Rightarrow> cache \<Rightarrow> world \<Rightarrow> unit outcome \<times> cache \<times> world" where
  "addToBlocklist st selectedIds entityId m c w =
     (case st of
        NoSettings \<Rightarrow>
          (case post (Error, AddSettingsInvalid) w of
             (None, w') \<Rightarrow> (Returned (), c, w')
           | (Some err, w') \<Rightarrow> (Raised, c, w'))
      | Settings g \<Rightarrow>
          (case g ''internal_block_list'' of
             Throws \<Rightarrow> (Raised, c, w)
           | Value on \<Rightarrow>
               if \<not> on
               then (case post (Warning, InternalDisabled) w of
                       (None, w') \<Rightarrow> (Returned (), c, w')
                     | (Some err, w') \<Rightarrow> (Raised, c, w'))
               else
                 (case add_loop m entityId selectedIds c [] w of
                    (False, c', added, w') \<Rightarrow> (Raised, c', w')
                  | (True, c', added, w') \<Rightarrow>
                      if added \<noteq> [] then save_added added c' w'
                      else (case post (Warning, NothingToAdd) w' of
                              (None, w'') \<Rightarrow> (Returned (), c', w'')
                            | (Some err, w'') \<Rightarrow> (Raised, c', w'')))))"

definition listed :: "world \<Rightarrow> string \<Rightarrow> string \<Rightarrow> bool" where
  \<comment> \<open>whether the file's \<open>tths\<close> array has an entry for the identifier\<close>
  "listed w f t =
     (case readFileSync w f of
        Some (Json b) \<Rightarrow> (case j_tths b of Array es \<Rightarrow> TStr t \<in> tth ` set es | NotArray \<Rightarrow> False)
      | _ \<Rightarrow> False)"

section \<open>Notions used to state the properties\<close>

definition entry_ids :: "entry list \<Rightarrow> string list" where
  \<comment> \<open>the identifiers that occur in a list of entries\<close>
  "entry_ids es = concat (map (\<lambda>e. case tth e of TStr s \<Rightarrow> [s] | _ \<Rightarrow> []) es)"

definition valid_ids :: "entry list \<Rightarrow> string set" where
  \<comment> \<open>the valid identifiers that occur in a list of entries\<close>
  "valid_ids es = set (filter isValidTTH (entry_ids es))"

definition asked :: "cache \<Rightarrow> blocklist \<Rightarrow> world \<Rightarrow> world" where
  \<comment> \<open>the host after one conditional request for the source, and nothing else\<close>
  "asked c bl w = w\<lparr>requests := requests w @ [blocklistETags c (file_name bl)]\<rparr>"

definition unchanged_version :: "cache \<Rightarrow> blocklist \<Rightarrow> response \<Rightarrow> bool" where
  \<comment> \<open>a 200 response whose body carries the version token stored for the source\<close>
  "unchanged_version c bl r =
     (case r of
        NetworkError msg \<Rightarrow> False
      | Response st stext ctype tag bd \<Rightarrow>
          st = 200 \<and>
          (case bd of
             BadJson msg \<Rightarrow> False
           | Body d \<Rightarrow>
               version_token d \<noteq> None \<and>
               blocklistVersions c (file_name bl) = Some (version_token d)))"

definition fetch_fails :: "response \<Rightarrow> bool" where
  \<comment> \<open>a failed fetch: no answer, an error status, a wrong content type, a body that does not
      parse or whose \<open>tths\<close> is not an array\<close>
  "fetch_fails r =
     (case r of
        NetworkError msg \<Rightarrow> True
      | Response st stext ctype tag bd \<Rightarrow>
          st \<noteq> 304 \<and>
          (\<not> response_ok st \<or>
           (\<not> str_includes ctype ''application/json'' \<and> \<not> str_includes ctype ''text/plain'') \<or>
           (case bd of BadJson msg \<Rightarrow> True | Body d \<Rightarrow> j_tths d = NotArray)))"

definition startup :: "settings \<Rightarrow> world \<Rightarrow> cache \<times> world" where
  \<comment> \<open>how \<open>onStart\<close> fills the module's variables from their initial values: the scan of the
      directory, then \<open>loadBlockedTTHs\<close>\<close>
  "startup st w =
     (case getBlocklistFiles w of
        (bs, w1) \<Rightarrow>
          (case loadBlockedTTHs st
                  \<lparr>blockedTTHSet = {}, blocklistFiles = bs, blocklistTTHMap = Map.empty,
                   blocklistETags = Map.empty, blocklistVersions = Map.empty,
                   lastUpdateWriteTime = Map.empty\<rparr> w1 of
             (r, c, w2) \<Rightarrow> (c, w2)))"

subsection \<open>Example hosts\<close>

definition tth_A :: string where
  "tth_A = ''AAAAAAAAAAAAAAAAAAAAAAAAAAAAAAAAAAAAAAA''"

definition tth_B :: string where
  "tth_B = ''BBBBBBBBBBBBBBBBBBBBBBBBBBBBBBBBBBBBBBB''"

definition tth_C :: string where
  "tth_C = ''CCCCCCCCCCCCCCCCCCCCCCCCCCCCCCCCCCCCCCC''"

definition entry_of :: "string \<Rightarrow> entry" where
  "entry_of t = \<lparr>tth = TStr t, comment = [], timestamp = []\<rparr>"

definition local_list :: "string list \<Rightarrow> blocklist_json" where
  "local_list ts =
     \<lparr>j_url = NoUrl, j_version = ''1.0.0'', j_updated_at = [], j_tths = Array (map entry_of ts)\<rparr>"

definition quiet_host :: "(string \<times> fileinfo) list \<Rightarrow> (nat \<Rightarrow> response) \<Rightarrow> world" where
  \<comment> \<open>a host whose disk and notification channel work\<close>
  "quiet_host fs answers =
     \<lparr>files = fs, disk_error = None, write_mtime = 20, clock_ms = 25, clock_iso = ''now'',
      posts = [], post_error = (\<lambda>n. None), requests = [], net = answers,
      search_api = (\<lambda>e. None), filelist_api = (\<lambda>e i. Missing)\<rparr>"

definition two_sources :: world where
  \<comment> \<open>\<open>a.json\<close> lists A, a malformed identifier and B; \<open>b.json\<close> lists A\<close>
  "two_sources =
     quiet_host
       [(''a.json'', \<lparr>content = Json (local_list [tth_A, ''SHORT'', tth_B]), mtimeMs = 10\<rparr>),
        (''b.json'', \<lparr>content = Json (local_list [tth_A]), mtimeMs = 10\<rparr>)]
       (\<lambda>n. NetworkError ''offline'')"

definition all_enabled :: settings where
  "all_enabled = Settings (\<lambda>key. Value True)"

definition a_disabled :: settings where
  "a_disabled = Settings (\<lambda>key. Value (key \<noteq> ''blocklist_a.json''))"

definition mirror_url :: urlval where
  "mirror_url = Parsed ''https:'' ''raw.githubusercontent.com'' ''/lists/main/r.json''"

definition mirror :: blocklist where
  "mirror = \<lparr>file_name = ''r.json'', mtime = 10, url = mirror_url, version = ''7'', updated_at = []\<rparr>"

definition mirror_json :: "string \<Rightarrow> string \<Rightarrow> string list \<Rightarrow> blocklist_json" where
  "mirror_json v at ts =
     \<lparr>j_url = mirror_url, j_version = v, j_updated_at = at, j_tths = Array (map entry_of ts)\<rparr>"

definition mirror_cache :: cache where
  \<comment> \<open>the module's variables once \<open>r.json\<close>, version 7 with the identifier A, is loaded\<close>
  "mirror_cache =
     \<lparr>blockedTTHSet = {tth_A}, blocklistFiles = [mirror],
      blocklistTTHMap = [''r.json'' \<mapsto> {tth_A}], blocklistETags = Map.empty,
      blocklistVersions = [''r.json'' \<mapsto> Some ''7''], lastUpdateWriteTime = Map.empty\<rparr>"

definition mirror_host :: "(nat \<Rightarrow> response) \<Rightarrow> world" where
  "mirror_host answers =
     quiet_host [(''r.json'', \<lparr>content = Json (mirror_json ''7'' [] [tth_A]), mtimeMs = 10\<rparr>)] answers"

definition deaf_host :: world where
  \<comment> \<open>a host whose notification channel rejects every post\<close>
  "deaf_host = two_sources\<lparr>post_error := (\<lambda>n. Some ''socket closed'')\<rparr>"

definition edit_file :: "string \<Rightarrow> content \<Rightarrow> nat \<Rightarrow> world \<Rightarrow> world" where
  \<comment> \<open>a file replaced from outside the extension, with its new modification time\<close>
  "edit_file f new m w = w\<lparr>files := put_file f \<lparr>content = new, mtimeMs = m\<rparr> (files w)\<rparr>"


definition mixed_entries :: "entry list" where
  \<comment> \<open>B, an entry whose \<open>tth\<close> is a number, and C\<close>
  "mixed_entries =
     [entry_of tth_B, \<lparr>tth = TOther, comment = [], timestamp = []\<rparr>, entry_of tth_C]"

definition mixed_host :: world where
  \<comment> \<open>after a start with \<open>a.json\<close> and \<open>b.json\<close>, \<open>a.json\<close> is replaced by a list of the
      three entries\<close>
  "mixed_host =
     edit_file ''a.json''
       (Json \<lparr>j_url = NoUrl, j_version = ''1.0.1'', j_updated_at = [],
              j_tths = Array mixed_entries\<rparr>) 11
       (snd (startup all_enabled two_sources))"

definition queued :: "string \<Rightarrow> hook_data" where
  "queued t = Data (Some \<lparr>q_name = ''file.bin'', q_tth = Some t\<rparr>)"

section \<open>Properties of the identifier validator\<close>

lemma match_exact_iff: "match_exact cls n s = (length s = n \<and> list_all cls s)"
proof (induction s arbitrary: n)
  case Nil
  show ?case by auto
next
  case (Cons c cs)
  show ?case
  proof (cases n)
    case 0
    then show ?thesis by simp
  next
    case (Suc m)
    then show ?thesis using Cons.IH [of m] by auto
  qed
qed

lemma isValidTTH_iff: "isValidTTH s = (length s = 39 \<and> list_all tth_class s)"
  by (simp add: isValidTTH_def match_exact_iff)

lemma in_range_upper:
  "in_range (CHR ''A'') (CHR ''Z'') c = (c \<in> set ''ABCDEFGHIJKLMNOPQRSTUVWXYZ'')"
proof -
  have "(65 \<le> (of_char c::nat) \<and> (of_char c::nat) \<le> 90) =
        ((of_char c::nat) \<in> of_char ` set ''ABCDEFGHIJKLMNOPQRSTUVWXYZ'')"
    by simp arith
  also have "\<dots> = (c \<in> set ''ABCDEFGHIJKLMNOPQRSTUVWXYZ'')"
    by (rule inj_image_mem_iff) (simp add: inj_on_def)
  finally show ?thesis by (simp add: in_range_def)
qed

lemma in_range_digit:
  "in_range (CHR ''2'') (CHR ''7'') c = (c \<in> set ''234567'')"
proof -
  have "(50 \<le> (of_char c::nat) \<and> (of_char c::nat) \<le> 55) =
        ((of_char c::nat) \<in> of_char ` set ''234567'')"
    by simp arith
  also have "\<dots> = (c \<in> set ''234567'')"
    by (rule inj_image_mem_iff) (simp add: inj_on_def)
  finally show ?thesis by (simp add: in_range_def)
qed

lemma tth_class_alphabet: "tth_class c = (c \<in> set base32_alphabet)"
proof -
  have split: "base32_alphabet = ''ABCDEFGHIJKLMNOPQRSTUVWXYZ'' @ ''234567''"
    unfolding base32_alphabet_def by (simp only: append.simps)
  show ?thesis
    unfolding tth_class_def in_range_upper in_range_digit split
    by (simp only: set_append Un_iff)
qed

text \<open>
  Claim C3. For every string \<open>s\<close>, \<open>isValidTTH\<close> answers true exactly when \<open>s\<close> has
  length 39 and every character of it is an uppercase letter \<open>A-Z\<close> or a digit \<open>2-7\<close>.
  The validator is a function of its argument alone: it reads and writes none of the
  module's variables, which is why its model takes and returns no cache.
\<close>

theorem isValidTTH_spec: "isValidTTH s = isValid_spec s"
  by (simp add: isValidTTH_iff isValid_spec_def tth_class_alphabet [abs_def])

theorem isValidTTH_spec_witness:
  "isValidTTH ''AAAAAAAAAAAAAAAAAAAAAAAAAAAAAAAAAAAAAAA'' \<and>
   \<not> isValidTTH ''AAAAAAAAAAAAAAAAAAAAAAAAAAAAAAAAAAAAAA'' \<and>
   \<not> isValidTTH ''aAAAAAAAAAAAAAAAAAAAAAAAAAAAAAAAAAAAAAA''"
  using isValidTTH_spec [of "''AAAAAAAAAAAAAAAAAAAAAAAAAAAAAAAAAAAAAAA''"]
    isValidTTH_spec [of "''AAAAAAAAAAAAAAAAAAAAAAAAAAAAAAAAAAAAAA''"]
    isValidTTH_spec [of "''aAAAAAAAAAAAAAAAAAAAAAAAAAAAAAAAAAAAAAA''"]
  by (simp add: isValid_spec_def base32_alphabet_def)

section \<open>Frame lemmas for the host\<close>

lemma post_frame:
  "post e w = (x, w') \<Longrightarrow>
     files w' = files w \<and> net w' = net w \<and> requests w' = requests w \<and>
     posts w' = posts w @ [e] \<and> post_error w' = post_error w \<and>
     x = post_error w (length (posts w))"
  by (auto simp: post_def)

lemma post_async_files: "files (post_async e w) = files w"
  by (simp add: post_async_def post_def)

lemma put_file_map_of: "map_of (put_file f i fs) g = (if g = f then Some i else map_of fs g)"
  by (induction fs) auto

lemma writeFileSync_read: "writeFileSync f d w = Inr w' \<Longrightarrow> readFileSync w' f = Some (Json d)"
  by (auto simp: writeFileSync_def readFileSync_def put_file_map_of split: option.splits)

lemma asked_simps:
  "files (asked c bl w) = files w"
  "net (asked c bl w) = net w"
  "posts (asked c bl w) = posts w"
  "post_error (asked c bl w) = post_error w"
  "length (requests (asked c bl w)) = Suc (length (requests w))"
  by (simp_all add: asked_def)

section \<open>Reconciliation of one source\<close>








section \<open>Reloading a source file\<close>

lemma isValidTTH_nonempty: "isValidTTH s \<Longrightarrow> s \<noteq> []"
  by (auto simp: isValidTTH_iff)

lemma valid_ids_Nil: "valid_ids [] = {}"
  by (simp add: valid_ids_def entry_ids_def)

lemma valid_ids_Cons:
  "valid_ids (e # es) =
     (case tth e of
        TStr s \<Rightarrow> (if isValidTTH s then insert s (valid_ids es) else valid_ids es)
      | _ \<Rightarrow> valid_ids es)"
  by (auto simp: valid_ids_def entry_ids_def split: tthval.splits)

lemma load_entries_strings:
  "\<forall>e\<in>set es. tth e \<noteq> TOther \<Longrightarrow>
   load_entries es B T = (True, B \<union> valid_ids es, T \<union> valid_ids es)"
proof (induction es arbitrary: B T)
  case Nil
  show ?case by (simp add: valid_ids_Nil)
next
  case (Cons e es)
  then have IH: "\<And>B T. load_entries es B T = (True, B \<union> valid_ids es, T \<union> valid_ids es)"
    by simp
  from Cons.prems have "tth e \<noteq> TOther" by simp
  then show ?case
    by (cases "tth e") (auto simp: IH valid_ids_Cons dest: isValidTTH_nonempty)
qed

lemma some_valid_strings: "\<forall>e\<in>set es. tth e \<noteq> TOther \<Longrightarrow> some_valid es \<noteq> None"
  by (induction es) (auto simp: tth_ok_def split: tthval.splits option.splits bool.splits)

lemma validate_json_keeps_files:
  assumes "readFileSync w f = Some (Json b)"
    and "case j_tths b of Array es \<Rightarrow> some_valid es \<noteq> None | NotArray \<Rightarrow> True"
  shows "files (snd (validateBlocklistFile f w)) = files w"
  using assms
  by (auto simp: validateBlocklistFile_def post_async_files split: tthsval.splits option.splits)

text \<open>
  The round trip for entries whose identifier is a string or absent. Let a registered,
  enabled source have a file whose \<open>tths\<close> array is \<open>E\<close>, let the file be structurally valid
  and its modification time not the one processed last. Then \<open>updateSingleBlocklist\<close>
  returns true and the per-source set is exactly the set of valid identifiers that occur in
  \<open>E\<close>: invalid strings are dropped, the others are kept, and all of them are in the
  aggregate set.
\<close>

lemma reload_roundtrip:
  assumes reg: "find (\<lambda>b. file_name b = f) (blocklistFiles c) = Some bl"
    and body: "map_of (files w) f = Some \<lparr>content = Json b, mtimeMs = m\<rparr>"
    and arr: "j_tths b = Array E"
    and fresh: "lastUpdateWriteTime c f \<noteq> Some m"
    and on: "setting_enabled st (settingKey f)"
    and ok: "valid (fst (validateBlocklistFile f w))"
    and strings: "\<forall>e\<in>set E. tth e \<noteq> TOther"
  shows "\<exists>c' w'. updateSingleBlocklist st f c w = (Returned True, c', w') \<and>
           blocklistTTHMap c' f = Some (valid_ids E) \<and> valid_ids E \<subseteq> blockedTTHSet c'"
proof -
  obtain v w1 where v: "validateBlocklistFile f w = (v, w1)"
    by (cases "validateBlocklistFile f w")
  have rd: "readFileSync w f = Some (Json b)" using body by (simp add: readFileSync_def)
  have st: "statSync w f = Some m" using body by (simp add: statSync_def)
  have "files w1 = files w"
    using validate_json_keeps_files [OF rd] some_valid_strings [OF strings] arr v by simp
  then have rd1: "readFileSync w1 f = Some (Json b)" using rd by (simp add: readFileSync_def)
  have val: "valid v" using ok v by simp
  show ?thesis
    using reg st fresh on v val rd1 arr load_entries_strings [OF strings]
    by (simp add: updateSingleBlocklist_def Let_def reload_source_def merge_source_def)
qed

lemma reload_roundtrip_example:
  "valid_ids (map entry_of [tth_A, ''SHORT'', tth_B]) = {tth_A, tth_B} \<and>
   (\<exists>c' w'. updateSingleBlocklist all_enabled ''a.json''
        (fst (startup all_enabled two_sources)) (snd (startup all_enabled two_sources)) =
          (Returned True, c', w') \<and>
      blocklistTTHMap c' ''a.json'' = Some (valid_ids (map entry_of [tth_A, ''SHORT'', tth_B])) \<and>
      valid_ids (map entry_of [tth_A, ''SHORT'', tth_B]) \<subseteq> blockedTTHSet c')"
proof -
  let ?c = "fst (startup all_enabled two_sources)"
  let ?w = "snd (startup all_enabled two_sources)"
  let ?bl = "\<lparr>file_name = ''a.json'', mtime = 10, url = NoUrl, version = ''1.0.0'',
              updated_at = ''now''\<rparr>"
  have reg: "find (\<lambda>b. file_name b = ''a.json'') (blocklistFiles ?c) = Some ?bl" by code_simp
  have body: "map_of (files ?w) ''a.json'' =
      Some \<lparr>content = Json (local_list [tth_A, ''SHORT'', tth_B]), mtimeMs = 10\<rparr>"
    by code_simp
  have arr: "j_tths (local_list [tth_A, ''SHORT'', tth_B]) =
      Array (map entry_of [tth_A, ''SHORT'', tth_B])"
    by (simp add: local_list_def)
  have fresh: "lastUpdateWriteTime ?c ''a.json'' \<noteq> Some 10" by code_simp
  have on: "setting_enabled all_enabled (settingKey ''a.json'')" by code_simp
  have ok: "valid (fst (validateBlocklistFile ''a.json'' ?w))" by code_simp
  have strings: "\<forall>e\<in>set (map entry_of [tth_A, ''SHORT'', tth_B]). tth e \<noteq> TOther"
    by (simp add: entry_of_def)
  have ids: "valid_ids (map entry_of [tth_A, ''SHORT'', tth_B]) = {tth_A, tth_B}" by code_simp
  show ?thesis
    using ids reload_roundtrip [OF reg body arr fresh on ok strings] by simp
qed

text \<open>
  Claim C5 fails on the code of this version. The claim is for every list of entries, and
  an invalid identifier need not be a string: a number is one. \<open>isValidTTH\<close> builds its
  warning with \<open>id.split\<close>, which raises for a value that is not a string, and the reload
  loop stops there. For the list of B, an entry whose \<open>tth\<close> is a number, and C, in an
  enabled and structurally valid source, \<open>updateSingleBlocklist\<close> reports a failed reload
  and returns false: the source has no per-source set, B is in the aggregate set and C is
  not, although the valid identifiers of the list are B and C.
\<close>

theorem reload_stops_at_non_string_identifier:
  "valid_ids mixed_entries = {tth_B, tth_C} \<and>
   setting_enabled all_enabled (settingKey ''a.json'') \<and>
   valid (fst (validateBlocklistFile ''a.json'' mixed_host)) \<and>
   (case updateSingleBlocklist all_enabled ''a.json''
           (fst (startup all_enabled two_sources)) mixed_host of
      (r, c, w) \<Rightarrow>
        r = Returned False \<and>
        blocklistTTHMap c ''a.json'' = None \<and>
        tth_B \<in> blockedTTHSet c \<and>
        tth_C \<notin> blockedTTHSet c \<and>
        posts w = posts mixed_host @ [(Error, ReloadFailed ''a.json'')])"
  by code_simp

section \<open>Remote synchronizer: what a fetch leaves alone\<close>

lemma fetch_attempt_unchanged:
  assumes "unchanged_version c bl (net w (length (requests w)))"
    and "fetch_attempt bl c w = (x, c', w')"
  shows "c' = c \<and> w' = asked c bl w \<and> x \<noteq> Inr True"
  using assms
  by (auto simp: fetch_attempt_def unchanged_version_def asked_def Let_def response_ok_def
      split: response.splits body.splits tthsval.splits if_splits)

lemma fetch_attempt_fails:
  assumes "fetch_fails (net w (length (requests w)))"
    and "fetch_attempt bl c w = (x, c', w')"
  shows "c' = c \<and> w' = asked c bl w \<and> (\<exists>msg. x = Inl msg)"
  using assms
  by (auto simp: fetch_attempt_def fetch_fails_def asked_def Let_def
      split: response.splits body.splits tthsval.splits if_splits)

lemma fetch_loop_unchanged:
  "(\<forall>n<k. unchanged_version c bl (net w (length (requests w) + n))) \<Longrightarrow>
   fetch_loop k bl c w = (r, c', w') \<Longrightarrow>
   c' = c \<and> files w' = files w \<and> r \<noteq> Returned True"
proof (induction k arbitrary: w)
  case 0
  then show ?case by auto
next
  case (Suc k)
  obtain x c1 w1 where att: "fetch_attempt bl c w = (x, c1, w1)"
    by (cases "fetch_attempt bl c w") auto
  from Suc.prems(1) have "unchanged_version c bl (net w (length (requests w)))"
    by (metis add.right_neutral zero_less_Suc)
  from fetch_attempt_unchanged [OF this att]
  have c1: "c1 = c" and w1: "w1 = asked c bl w" and x: "x \<noteq> Inr True" by simp_all
  have later: "\<forall>n<k. unchanged_version c bl (net w1 (length (requests w1) + n))"
  proof (intro allI impI)
    fix n assume "n < k"
    then have "Suc n < Suc k" by simp
    then have "unchanged_version c bl (net w (length (requests w) + Suc n))"
      using Suc.prems(1) by blast
    then show "unchanged_version c bl (net w1 (length (requests w1) + n))"
      by (simp add: w1 asked_simps)
  qed
  show ?case
  proof (cases x)
    case (Inr b)
    then show ?thesis using Suc.prems(2) att x c1 w1 by (auto simp: asked_simps)
  next
    case (Inl msg)
    show ?thesis
    proof (cases "0 < k \<and> \<not> str_includes msg ''HTTP 304''")
      case True
      then have "fetch_loop k bl c w1 = (r, c', w')"
        using Suc.prems(2) att Inl c1 by simp
      from Suc.IH [OF later this] show ?thesis by (simp add: w1 asked_simps)
    next
      case False
      then show ?thesis
        using Suc.prems(2) att Inl c1 w1
        by (auto simp: asked_simps split: prod.splits option.splits dest!: post_frame)
    qed
  qed
qed

text \<open>
  Claim C6. When every fetch of a call answers 200 with a body whose version token is the
  one stored for the source, \<open>fetchAndUpdateBlocklist\<close> does not report an update, writes no
  file and leaves every module variable as it was: the per-source set, the aggregate set,
  the stored version token and the entity tag. Nothing is asked of the rest of the body,
  so its bytes may differ from the file's.
\<close>

theorem same_version_no_write:
  assumes "\<forall>n<retries. unchanged_version c bl (net w (length (requests w) + n))"
    and "fetchAndUpdateBlocklist bl retries c w = (r, c', w')"
  shows "c' = c \<and> files w' = files w \<and> r \<noteq> Returned True"
  using assms fetch_loop_unchanged [of retries c bl w r c' w']
  by (auto simp: fetchAndUpdateBlocklist_def
      split: if_splits prod.splits option.splits dest!: post_frame)

theorem same_version_no_write_witness:
  "fst (fetchAndUpdateBlocklist mirror 3 mirror_cache
      (mirror_host (\<lambda>n. Response 200 ''OK'' ''text/plain; charset=utf-8'' ''W/1''
         (Body (mirror_json ''7'' ''2025-08-27'' [tth_B]))))) = Returned False \<and>
   fst (snd (fetchAndUpdateBlocklist mirror 3 mirror_cache
      (mirror_host (\<lambda>n. Response 200 ''OK'' ''text/plain; charset=utf-8'' ''W/1''
         (Body (mirror_json ''7'' ''2025-08-27'' [tth_B])))))) = mirror_cache \<and>
   files (snd (snd (fetchAndUpdateBlocklist mirror 3 mirror_cache
      (mirror_host (\<lambda>n. Response 200 ''OK'' ''text/plain; charset=utf-8'' ''W/1''
         (Body (mirror_json ''7'' ''2025-08-27'' [tth_B]))))))) =
     [(''r.json'', \<lparr>content = Json (mirror_json ''7'' [] [tth_A]), mtimeMs = 10\<rparr>)]"
proof -
  let ?reply = "Response 200 ''OK'' ''text/plain; charset=utf-8'' ''W/1''
         (Body (mirror_json ''7'' ''2025-08-27'' [tth_B]))"
  let ?w = "mirror_host (\<lambda>n. ?reply)"
  let ?run = "fetchAndUpdateBlocklist mirror 3 mirror_cache ?w"
  have same: "unchanged_version mirror_cache mirror ?reply" by code_simp
  then have all: "\<forall>n<3. unchanged_version mirror_cache mirror
      (net ?w (length (requests ?w) + n))"
    by (simp add: mirror_host_def quiet_host_def)
  have run: "?run = (fst ?run, fst (snd ?run), snd (snd ?run))" by simp
  have ret: "fst ?run = Returned False" by code_simp
  have fs: "files ?w = [(''r.json'', \<lparr>content = Json (mirror_json ''7'' [] [tth_A]), mtimeMs = 10\<rparr>)]"
    by (simp add: mirror_host_def quiet_host_def)
  show ?thesis
    using ret fs same_version_no_write [OF all run] by simp
qed

text \<open>
  Claim C7. For a remote source with an acceptable URL, a 304 answer makes
  \<open>fetchAndUpdateBlocklist\<close> return false after that one request: no further request is
  sent, nothing is posted, no file is written, and every module variable is as it was,
  the stored entity tag and version token among them.
\<close>

theorem not_modified_no_change:
  assumes "url bl \<noteq> Internal" and "isValidBlocklistURL (url bl)" and "0 < retries"
    and "net w (length (requests w)) = Response 304 stext ctype tag bd"
  shows "fetchAndUpdateBlocklist bl retries c w = (Returned False, c, asked c bl w)"
proof -
  obtain k where k: "retries = Suc k" using assms(3) by (cases retries) auto
  have "fetch_attempt bl c w = (Inr False, c, asked c bl w)"
    using assms(4) by (simp add: fetch_attempt_def asked_def Let_def)
  then show ?thesis
    using assms(1,2) k by (simp add: fetchAndUpdateBlocklist_def)
qed

theorem not_modified_no_change_witness:
  "fetchAndUpdateBlocklist mirror 3 mirror_cache
      (mirror_host (\<lambda>n. Response 304 ''Not Modified'' [] [] (BadJson []))) =
     (Returned False, mirror_cache,
      asked mirror_cache mirror (mirror_host (\<lambda>n. Response 304 ''Not Modified'' [] [] (BadJson [])))) \<and>
   length (requests (asked mirror_cache mirror
      (mirror_host (\<lambda>n. Response 304 ''Not Modified'' [] [] (BadJson []))))) = 1"
proof -
  let ?w = "mirror_host (\<lambda>n. Response 304 ''Not Modified'' [] [] (BadJson []))"
  have remote: "url mirror \<noteq> Internal" by code_simp
  have good: "isValidBlocklistURL (url mirror)" by code_simp
  have reply: "net ?w (length (requests ?w)) = Response 304 ''Not Modified'' [] [] (BadJson [])"
    by (simp add: mirror_host_def quiet_host_def)
  have one: "length (requests (asked mirror_cache mirror ?w)) = 1"
    by (simp add: asked_def mirror_host_def quiet_host_def)
  show ?thesis
    using one not_modified_no_change [OF remote good _ reply, of 3 mirror_cache] by simp
qed

section \<open>Remote synchronizer: exhausted retries\<close>

lemma fetch_loop_fails:
  "0 < k \<Longrightarrow> (\<forall>n<k. fetch_fails (net w (length (requests w) + n))) \<Longrightarrow>
   fetch_loop k bl c w = (r, c', w') \<Longrightarrow>
   c' = c \<and> files w' = files w \<and>
   (\<exists>msg. posts w' = posts w @ [(Error, UpdateFailed (file_name bl) msg)]) \<and>
   r = (if post_error w (length (posts w)) = None then Returned False else Raised)"
proof (induction k arbitrary: w)
  case 0
  then show ?case by simp
next
  case (Suc k)
  obtain x c1 w1 where att: "fetch_attempt bl c w = (x, c1, w1)"
    by (cases "fetch_attempt bl c w") auto
  from Suc.prems(2) have "fetch_fails (net w (length (requests w)))"
    by (metis add.right_neutral zero_less_Suc)
  from fetch_attempt_fails [OF this att]
  obtain msg where c1: "c1 = c" and w1: "w1 = asked c bl w" and x: "x = Inl msg" by auto
  have later: "\<forall>n<k. fetch_fails (net w1 (length (requests w1) + n))"
  proof (intro allI impI)
    fix n assume "n < k"
    then have "Suc n < Suc k" by simp
    then have "fetch_fails (net w (length (requests w) + Suc n))"
      using Suc.prems(2) by blast
    then show "fetch_fails (net w1 (length (requests w1) + n))"
      by (simp add: w1 asked_simps)
  qed
  show ?case
  proof (cases "0 < k \<and> \<not> str_includes msg ''HTTP 304''")
    case True
    then have "fetch_loop k bl c w1 = (r, c', w')"
      using Suc.prems(3) att x c1 by simp
    from Suc.IH [OF _ later this] True show ?thesis by (simp add: w1 asked_simps)
  next
    case False
    then show ?thesis
      using Suc.prems(3) att x c1 w1
      by (auto simp: asked_simps split: prod.splits option.splits dest!: post_frame)
  qed
qed

text \<open>
  Claim C8. For a remote source with an acceptable URL, when every attempt of a call
  fails (no answer, an error status, a wrong content type, a body that does not parse or
  whose \<open>tths\<close> is not an array), \<open>fetchAndUpdateBlocklist\<close> posts exactly one event, an
  error naming the source, writes no file and leaves every module variable as it was: the
  per-source set, the aggregate set, the entity tag and the version token. It returns
  false when that post is delivered.
\<close>

theorem exhausted_retries_keep_state:
  assumes "url bl \<noteq> Internal" and "isValidBlocklistURL (url bl)" and "0 < retries"
    and "\<forall>n<retries. fetch_fails (net w (length (requests w) + n))"
    and "fetchAndUpdateBlocklist bl retries c w = (r, c', w')"
  shows "c' = c \<and> files w' = files w \<and>
     (\<exists>msg. posts w' = posts w @ [(Error, UpdateFailed (file_name bl) msg)]) \<and>
     r = (if post_error w (length (posts w)) = None then Returned False else Raised)"
  using assms fetch_loop_fails [of retries w bl c r c' w']
  by (simp add: fetchAndUpdateBlocklist_def)

theorem exhausted_retries_keep_state_witness:
  "fst (snd (fetchAndUpdateBlocklist mirror 3 mirror_cache
      (mirror_host (\<lambda>n. Response 500 ''Internal Server Error'' ''text/html'' [] (BadJson []))))) =
     mirror_cache \<and>
   posts (snd (snd (fetchAndUpdateBlocklist mirror 3 mirror_cache
      (mirror_host (\<lambda>n. Response 500 ''Internal Server Error'' ''text/html'' [] (BadJson [])))))) =
     [(Error, UpdateFailed ''r.json'' ''HTTP 500: Internal Server Error'')] \<and>
   fst (fetchAndUpdateBlocklist mirror 3 mirror_cache
      (mirror_host (\<lambda>n. Response 500 ''Internal Server Error'' ''text/html'' [] (BadJson [])))) =
     Returned False \<and>
   length (requests (snd (snd (fetchAndUpdateBlocklist mirror 3 mirror_cache
      (mirror_host (\<lambda>n. Response 500 ''Internal Server Error'' ''text/html'' [] (BadJson []))))))) = 3"
proof -
  let ?reply = "Response 500 ''Internal Server Error'' ''text/html'' [] (BadJson [])"
  let ?w = "mirror_host (\<lambda>n. ?reply)"
  let ?run = "fetchAndUpdateBlocklist mirror 3 mirror_cache ?w"
  have remote: "url mirror \<noteq> Internal" by code_simp
  have good: "isValidBlocklistURL (url mirror)" by code_simp
  have bad: "fetch_fails ?reply" by code_simp
  then have all: "\<forall>n<3. fetch_fails (net ?w (length (requests ?w) + n))"
    by (simp add: mirror_host_def quiet_host_def)
  have run: "?run = (fst ?run, fst (snd ?run), snd (snd ?run))" by simp
  have said: "posts (snd (snd ?run)) =
      [(Error, UpdateFailed ''r.json'' ''HTTP 500: Internal Server Error'')]"
    by code_simp
  have tried: "length (requests (snd (snd ?run))) = 3" by code_simp
  have quiet: "post_error ?w (length (posts ?w)) = None"
    by (simp add: mirror_host_def quiet_host_def)
  show ?thesis
    using said tried quiet exhausted_retries_keep_state [OF remote good _ all run] by simp
qed

section \<open>Admission decision\<close>

text \<open>
  Claim C9. Whenever the body of \<open>queueBundleFileAddHook\<close> raises, the hook accepts the
  file: so it does when the hook's argument is missing and when the notification of a
  block is rejected. It accepts as well when the settings object is invalid. The hook
  itself never raises: its model returns a decision for every input.
\<close>

theorem hook_fails_open:
  "(\<forall>err. fst (hook_try st c d w) = Inl err \<longrightarrow> fst (queueBundleFileAddHook st c d w) = Accept) \<and>
   (d = NoData \<longrightarrow> fst (queueBundleFileAddHook st c d w) = Accept) \<and>
   (st = NoSettings \<longrightarrow> fst (queueBundleFileAddHook st c d w) = Accept) \<and>
   (post_error w (length (posts w)) \<noteq> None \<longrightarrow> fst (queueBundleFileAddHook st c d w) = Accept)"
  by (auto simp: queueBundleFileAddHook_def hook_try_def post_def Let_def
      split: prod.splits sum.splits hook_data.splits settings.splits option.splits if_splits)

theorem hook_fails_open_witness:
  "fst (hook_try all_enabled mirror_cache (queued tth_A) deaf_host) = Inl ''socket closed'' \<and>
   fst (queueBundleFileAddHook all_enabled mirror_cache (queued tth_A) deaf_host) = Accept \<and>
   fst (queueBundleFileAddHook all_enabled mirror_cache NoData two_sources) = Accept \<and>
   fst (queueBundleFileAddHook NoSettings mirror_cache (queued tth_A) two_sources) = Accept"
proof -
  have raised: "fst (hook_try all_enabled mirror_cache (queued tth_A) deaf_host) =
      Inl ''socket closed''"
    by code_simp
  show ?thesis
    using raised
      hook_fails_open [of all_enabled mirror_cache "queued tth_A" deaf_host]
      hook_fails_open [of all_enabled mirror_cache NoData two_sources]
      hook_fails_open [of NoSettings mirror_cache "queued tth_A" two_sources]
    by simp
qed

text \<open>
  Claim C2, as the code has it. For a queued file whose TTH field is a non-empty string,
  when the settings object is valid and the notification of a block is delivered, the
  hook rejects the file if the TTH is in the aggregate set and accepts it otherwise.
  With an invalid settings object, or when the notification is rejected, the hook accepts
  a file whose TTH is in the aggregate set: the counterexample below.
\<close>

theorem admission_rejects_blocked:
  assumes "st = Settings g" and "post_error w (length (posts w)) = None" and "t \<noteq> []"
  shows "fst (queueBundleFileAddHook st c (Data (Some \<lparr>q_name = n, q_tth = Some t\<rparr>)) w) =
     (if t \<in> blockedTTHSet c
      then Reject ''blocked_tth'' ''Download skipped: TTH is blocked by extension''
      else Accept)"
  using assms by (simp add: queueBundleFileAddHook_def hook_try_def post_def)

theorem admission_rejects_blocked_witness:
  "fst (queueBundleFileAddHook all_enabled mirror_cache
          (Data (Some \<lparr>q_name = ''file.bin'', q_tth = Some tth_A\<rparr>)) two_sources) =
     Reject ''blocked_tth'' ''Download skipped: TTH is blocked by extension'' \<and>
   fst (queueBundleFileAddHook all_enabled mirror_cache
          (Data (Some \<lparr>q_name = ''file.bin'', q_tth = Some tth_B\<rparr>)) two_sources) = Accept"
proof -
  have st: "all_enabled = Settings (\<lambda>key. Value True)" by (simp add: all_enabled_def)
  have quiet: "post_error two_sources (length (posts two_sources)) = None"
    by (simp add: two_sources_def quiet_host_def)
  have a: "tth_A \<noteq> []" and b: "tth_B \<noteq> []" by (simp_all add: tth_A_def tth_B_def)
  have inA: "tth_A \<in> blockedTTHSet mirror_cache" by code_simp
  have outB: "tth_B \<notin> blockedTTHSet mirror_cache" by code_simp
  show ?thesis
    using inA outB
      admission_rejects_blocked [OF st quiet a, of mirror_cache "''file.bin''"]
      admission_rejects_blocked [OF st quiet b, of mirror_cache "''file.bin''"]
    by simp
qed

theorem admission_fail_open_counterexample:
  "tth_A \<in> blockedTTHSet mirror_cache \<and>
   fst (queueBundleFileAddHook NoSettings mirror_cache (queued tth_A) two_sources) = Accept \<and>
   fst (queueBundleFileAddHook all_enabled mirror_cache (queued tth_A) deaf_host) = Accept"
  by code_simp

section \<open>Local editor: the duplicate check\<close>

lemma listed_files: "files w' = files w \<Longrightarrow> listed w' f t = listed w f t"
  by (simp add: listed_def readFileSync_def)

lemma resolve_tth_files: "resolve_tth m e i w = (r, w') \<Longrightarrow> files w' = files w"
  by (auto simp: resolve_tth_def addTTHFromFilelist_def filelist_failed_def
      split: menu.splits item_reply.splits item_kind.splits prod.splits option.splits
      dest!: post_frame)

lemma add_loop_inv:
  "add_loop m eid ids c added w = (ok, c', added', w') \<Longrightarrow>
   B \<subseteq> blockedTTHSet c \<Longrightarrow>
   tths_of c INTERNAL_BLOCKLIST_FILE \<inter> B = S \<Longrightarrow>
   \<forall>e\<in>set added. entry_tth e \<notin> B \<and> tth e = TStr (entry_tth e) \<Longrightarrow>
   files w' = files w \<and>
   (\<forall>e\<in>set added'. entry_tth e \<notin> B \<and> tth e = TStr (entry_tth e)) \<and>
   B \<subseteq> blockedTTHSet c' \<and> tths_of c' INTERNAL_BLOCKLIST_FILE \<inter> B = S"
proof (induction ids arbitrary: c added w)
  case Nil
  then show ?case by simp
next
  case (Cons i ids)
  obtain r w1 where res: "resolve_tth m eid i w = (r, w1)" by (cases "resolve_tth m eid i w")
  have f1: "files w1 = files w" using resolve_tth_files [OF res] .
  show ?case
  proof (cases r)
    case Raised
    then show ?thesis using Cons.prems res f1 by auto
  next
    case (Returned x)
    show ?thesis
    proof (cases x)
      case None
      then have "add_loop m eid ids c added w1 = (ok, c', added', w')"
        using Cons.prems(1) res Returned by simp
      from Cons.IH [OF this Cons.prems(2) Cons.prems(3) Cons.prems(4)]
      show ?thesis by (simp add: f1)
    next
      case (Some t)
      show ?thesis
      proof (cases "t \<noteq> [] \<and> t \<notin> blockedTTHSet c")
        case False
        then have "add_loop m eid ids c added w1 = (ok, c', added', w')"
          using Cons.prems(1) res Returned Some by auto
        from Cons.IH [OF this Cons.prems(2) Cons.prems(3) Cons.prems(4)]
        show ?thesis by (simp add: f1)
      next
        case True
        let ?c = "c\<lparr>blockedTTHSet := insert t (blockedTTHSet c),
                    blocklistTTHMap := (blocklistTTHMap c)(INTERNAL_BLOCKLIST_FILE \<mapsto>
                      insert t (tths_of c INTERNAL_BLOCKLIST_FILE))\<rparr>"
        let ?a = "added @ [\<lparr>tth = TStr t, comment = [], timestamp = clock_iso w1\<rparr>]"
        have step: "add_loop m eid ids ?c ?a w1 = (ok, c', added', w')"
          using Cons.prems(1) res Returned Some True by simp
        have B: "B \<subseteq> blockedTTHSet ?c" using Cons.prems(2) by auto
        have new: "t \<notin> B" using True Cons.prems(2) by auto
        then have S: "tths_of ?c INTERNAL_BLOCKLIST_FILE \<inter> B = S"
          using Cons.prems(3) by (auto simp: tths_of_def)
        have A: "\<forall>e\<in>set ?a. entry_tth e \<notin> B \<and> tth e = TStr (entry_tth e)"
          using new Cons.prems(4) by (auto simp: entry_tth_def)
        from Cons.IH [OF step B S A] show ?thesis by (simp add: f1)
      qed
    qed
  qed
qed

lemma added_failed_frame:
  "added_failed c w = (r, c', w') \<Longrightarrow> files w' = files w \<and> c' = c"
  by (auto simp: added_failed_def split: prod.splits option.splits dest!: post_frame)

lemma save_added_files:
  assumes "save_added added c w = (r, c', w')"
  shows "files w' = files w \<or>
     (\<exists>b w1. (case readFileSync w INTERNAL_BLOCKLIST_FILE of
                 None \<Rightarrow> Some (defaultBlocklist w INTERNAL_BLOCKLIST_FILE)
               | Some Blank \<Rightarrow> Some (defaultBlocklist w INTERNAL_BLOCKLIST_FILE)
               | Some Garbage \<Rightarrow> None
               | Some (Json b) \<Rightarrow> Some b) = Some b \<and>
        writeFileSync INTERNAL_BLOCKLIST_FILE
          (b\<lparr>j_tths := Array ((case j_tths b of NotArray \<Rightarrow> [] | Array es \<Rightarrow> es) @ added),
             j_updated_at := clock_iso w\<rparr>) w = Inr w1 \<and>
        files w' = files w1)"
  using assms
  by (auto simp: save_added_def Let_def
      split: option.splits sum.splits prod.splits
      dest!: post_frame added_failed_frame)

lemma save_added_index:
  "save_added added c w = (r, c', w') \<Longrightarrow>
     blocklistTTHMap c' = blocklistTTHMap c \<and> blockedTTHSet c' = blockedTTHSet c"
  by (auto simp: save_added_def Let_def
      split: option.splits sum.splits prod.splits
      dest!: post_frame added_failed_frame)

lemma save_added_listed:
  assumes run: "save_added added c w = (r, c', w')"
    and new: "\<forall>e\<in>set added. tth e \<noteq> TStr t"
  shows "listed w' INTERNAL_BLOCKLIST_FILE t = listed w INTERNAL_BLOCKLIST_FILE t"
proof -
  from save_added_files [OF run] show ?thesis
  proof
    assume "files w' = files w"
    then show ?thesis by (rule listed_files)
  next
    assume "\<exists>b w1. (case readFileSync w INTERNAL_BLOCKLIST_FILE of
                 None \<Rightarrow> Some (defaultBlocklist w INTERNAL_BLOCKLIST_FILE)
               | Some Blank \<Rightarrow> Some (defaultBlocklist w INTERNAL_BLOCKLIST_FILE)
               | Some Garbage \<Rightarrow> None
               | Some (Json b) \<Rightarrow> Some b) = Some b \<and>
        writeFileSync INTERNAL_BLOCKLIST_FILE
          (b\<lparr>j_tths := Array ((case j_tths b of NotArray \<Rightarrow> [] | Array es \<Rightarrow> es) @ added),
             j_updated_at := clock_iso w\<rparr>) w = Inr w1 \<and>
        files w' = files w1"
    then obtain b w1 where
      start: "(case readFileSync w INTERNAL_BLOCKLIST_FILE of
                 None \<Rightarrow> Some (defaultBlocklist w INTERNAL_BLOCKLIST_FILE)
               | Some Blank \<Rightarrow> Some (defaultBlocklist w INTERNAL_BLOCKLIST_FILE)
               | Some Garbage \<Rightarrow> None
               | Some (Json b) \<Rightarrow> Some b) = Some b"
      and wr: "writeFileSync INTERNAL_BLOCKLIST_FILE
          (b\<lparr>j_tths := Array ((case j_tths b of NotArray \<Rightarrow> [] | Array es \<Rightarrow> es) @ added),
             j_updated_at := clock_iso w\<rparr>) w = Inr w1"
      and fs: "files w' = files w1" by blast
    have after: "listed w1 INTERNAL_BLOCKLIST_FILE t =
        (TStr t \<in> tth ` set (case j_tths b of NotArray \<Rightarrow> [] | Array es \<Rightarrow> es))"
      using writeFileSync_read [OF wr] new by (auto simp: listed_def)
    have before: "listed w INTERNAL_BLOCKLIST_FILE t =
        (TStr t \<in> tth ` set (case j_tths b of NotArray \<Rightarrow> [] | Array es \<Rightarrow> es))"
      using start
      by (auto simp: listed_def defaultBlocklist_def
          split: option.splits content.splits tthsval.splits)
    show ?thesis using listed_files [OF fs] after before by simp
  qed
qed

text \<open>
  Claim C10. \<open>addToBlocklist\<close> checks a resolved identifier against the aggregate set. An
  identifier that is in the aggregate set when the action starts, whichever source
  contributed it, is never appended: the internal blocklist file lists it after the action
  exactly if it listed it before, and the same holds of the internal source's per-source
  set. The identifier stays in the aggregate set.
\<close>

theorem duplicate_check_is_global:
  assumes dup: "t \<in> blockedTTHSet c"
    and run: "addToBlocklist st ids eid m c w = (r, c', w')"
  shows "listed w' INTERNAL_BLOCKLIST_FILE t = listed w INTERNAL_BLOCKLIST_FILE t \<and>
     (t \<in> tths_of c' INTERNAL_BLOCKLIST_FILE) = (t \<in> tths_of c INTERNAL_BLOCKLIST_FILE) \<and>
     t \<in> blockedTTHSet c'"
proof (cases "\<exists>g. st = Settings g \<and> g ''internal_block_list'' = Value True")
  case False
  then have "files w' = files w \<and> c' = c"
    using run
    by (auto simp: addToBlocklist_def split: settings.splits setting.splits prod.splits
        option.splits if_splits dest!: post_frame)
  then show ?thesis using dup listed_files [of w' w] by simp
next
  case True
  then obtain g where st: "st = Settings g" and on: "g ''internal_block_list'' = Value True"
    by blast
  obtain ok c1 added w1 where loop: "add_loop m eid ids c [] w = (ok, c1, added, w1)"
    by (cases "add_loop m eid ids c [] w") auto
  have inv: "files w1 = files w \<and>
      (\<forall>e\<in>set added. entry_tth e \<notin> {t} \<and> tth e = TStr (entry_tth e)) \<and>
      {t} \<subseteq> blockedTTHSet c1 \<and>
      tths_of c1 INTERNAL_BLOCKLIST_FILE \<inter> {t} = tths_of c INTERNAL_BLOCKLIST_FILE \<inter> {t}"
    using add_loop_inv [OF loop, of "{t}"] dup by simp
  then have new: "\<forall>e\<in>set added. tth e \<noteq> TStr t" by auto
  have same: "listed w1 INTERNAL_BLOCKLIST_FILE t = listed w INTERNAL_BLOCKLIST_FILE t"
    using inv listed_files [of w1 w] by simp
  have idx: "(t \<in> tths_of c1 INTERNAL_BLOCKLIST_FILE) = (t \<in> tths_of c INTERNAL_BLOCKLIST_FILE)"
    using inv by blast
  have agg: "t \<in> blockedTTHSet c1" using inv by simp
  show ?thesis
  proof (cases "ok \<and> added \<noteq> []")
    case True
    then have save: "save_added added c1 w1 = (r, c', w')"
      using run st on loop by (simp add: addToBlocklist_def)
    from save_added_listed [OF save new] save_added_index [OF save] same idx agg
    show ?thesis by (simp add: tths_of_def)
  next
    case False
    then have "files w' = files w1 \<and> c' = c1"
      using run st on loop
      by (auto simp: addToBlocklist_def split: prod.splits option.splits if_splits bool.splits
          dest!: post_frame)
    then show ?thesis using same idx agg listed_files [of w' w1] by simp
  qed
qed

theorem duplicate_check_is_global_witness:
  "tth_A \<in> blockedTTHSet (fst (startup all_enabled two_sources)) \<and>
   tth_A \<notin> tths_of (fst (startup all_enabled two_sources)) INTERNAL_BLOCKLIST_FILE \<and>
   \<not> listed (snd (startup all_enabled two_sources)) INTERNAL_BLOCKLIST_FILE tth_A \<and>
   \<not> listed (snd (snd (addToBlocklist all_enabled [tth_A, tth_C] ''search'' GroupedSearchResult
        (fst (startup all_enabled two_sources)) (snd (startup all_enabled two_sources)))))
      INTERNAL_BLOCKLIST_FILE tth_A \<and>
   listed (snd (snd (addToBlocklist all_enabled [tth_A, tth_C] ''search'' GroupedSearchResult
        (fst (startup all_enabled two_sources)) (snd (startup all_enabled two_sources)))))
      INTERNAL_BLOCKLIST_FILE tth_C"
proof -
  let ?c = "fst (startup all_enabled two_sources)"
  let ?w = "snd (startup all_enabled two_sources)"
  let ?run = "addToBlocklist all_enabled [tth_A, tth_C] ''search'' GroupedSearchResult ?c ?w"
  have dup: "tth_A \<in> blockedTTHSet ?c" by code_simp
  have own: "tth_A \<notin> tths_of ?c INTERNAL_BLOCKLIST_FILE" by code_simp
  have before: "\<not> listed ?w INTERNAL_BLOCKLIST_FILE tth_A" by code_simp
  have other: "listed (snd (snd ?run)) INTERNAL_BLOCKLIST_FILE tth_C" by code_simp
  have run: "?run = (fst ?run, fst (snd ?run), snd (snd ?run))" by simp
  show ?thesis
    using dup own before other duplicate_check_is_global [OF dup run] by simp
qed

section \<open>Reconciliation and the union of the enabled sources\<close>

text \<open>
  Claim C1 fails on the code. After a start with \<open>a.json\<close> and \<open>b.json\<close> enabled, both
  listing the identifier A, \<open>a.json\<close> is disabled and reconciled. The reconciliation deletes
  every identifier of \<open>a.json\<close> from the aggregate set, A included, although \<open>b.json\<close> is
  still enabled and its per-source set still holds A: a queued file with the TTH A is
  accepted.
\<close>

theorem reconcile_drops_shared_identifier:
  "tth_A \<in> blockedTTHSet (fst (startup all_enabled two_sources)) \<and>
   (case updateSingleBlocklist a_disabled ''a.json''
           (fst (startup all_enabled two_sources)) (snd (startup all_enabled two_sources)) of
      (r, c, w) \<Rightarrow>
        r = Returned False \<and>
        setting_enabled a_disabled (settingKey ''b.json'') \<and>
        blocklistTTHMap c ''b.json'' = Some {tth_A} \<and>
        tth_A \<notin> blockedTTHSet c \<and>
        fst (queueBundleFileAddHook a_disabled c (queued tth_A) w) = Accept)"
  by code_simp

end
